theory Spec2Isabelle
  imports Complex_Main
begin

section \<open>Python values\<close>

text \<open>
  The values that pass \<open>isinstance(x, int)\<close>: plain integers (unbounded) and the two
  booleans, \<open>bool\<close> being a subclass of \<open>int\<close>.
\<close>

datatype pyint = PInt int | PBool bool

text \<open>
  The values a caller can hand to the methods of \<open>Clock\<close>: an instance of \<open>int\<close>, or
  something else (a float, given by mantissa and exponent, a string, \<open>None\<close>).
\<close>

datatype pyval = IntV pyint | PFloat int int | PStr string | PNone

text \<open>The number an instance of \<open>int\<close> stands for in arithmetic and comparisons.\<close>

fun val :: "pyint \<Rightarrow> int" where
  "val (PInt n) = n"
| "val (PBool b) = (if b then 1 else 0)"

text \<open>\<open>isinstance(x, int)\<close>.\<close>

fun isinstance_int :: "pyval \<Rightarrow> bool" where
  "isinstance_int (IntV _) = True"
| "isinstance_int _ = False"

datatype error = TypeError string | ValueError string | AttributeError string

section \<open>The Clock class\<close>

text \<open>
  The attributes that \<open>set_clock\<close> assigns. They hold the objects that were passed in,
  so a field may be a boolean.
\<close>

record clock =
  hours :: pyint
  minutes :: pyint
  seconds :: pyint

text \<open>
  The state of an instance: \<open>None\<close> is a freshly allocated object, none of whose
  attributes is assigned yet (the state \<open>__init__\<close> starts from); reading an attribute
  of it raises \<open>AttributeError\<close>.
\<close>

type_synonym clock_obj = "clock option"

definition no_attribute :: error where
  "no_attribute = AttributeError ''Clock object has no attribute''"

text \<open>
  \<open>set_clock\<close> (lines 29-61). The result is the state of \<open>self\<close> after the call and
  either the exception raised or \<open>Inr ()\<close>, when the method returns \<open>self\<close>. After the
  test of line 45 the three arguments are instances of \<open>int\<close>, so the last branch of the
  case distinction is never taken.
\<close>

definition set_clock ::
  "clock_obj \<Rightarrow> pyval \<Rightarrow> pyval \<Rightarrow> pyval \<Rightarrow> clock_obj \<times> (error + unit)" where
  "set_clock self h m s =
     (if \<not> list_all isinstance_int [h, m, s]
      then (self, Inl (TypeError ''All time components must be integers''))
      else case (h, m, s) of
        (IntV hours', IntV minutes', IntV seconds') \<Rightarrow>
          if \<not> (0 \<le> val hours' \<and> val hours' < 24)
          then (self, Inl (ValueError ''Hours must be between 0 and 23''))
          else if \<not> (0 \<le> val minutes' \<and> val minutes' < 60)
          then (self, Inl (ValueError ''Minutes must be between 0 and 59''))
          else if \<not> (0 \<le> val seconds' \<and> val seconds' < 60)
          then (self, Inl (ValueError ''Seconds must be between 0 and 59''))
          else (Some \<lparr>hours = hours', minutes = minutes', seconds = seconds'\<rparr>, Inr ())
      | _ \<Rightarrow> (self, Inl (TypeError ''All time components must be integers'')))"

text \<open>\<open>__init__\<close> (lines 14-27): the body is the call of \<open>set_clock\<close>.\<close>

definition Clock_init ::
  "clock_obj \<Rightarrow> pyval \<Rightarrow> pyval \<Rightarrow> pyval \<Rightarrow> clock_obj \<times> (error + unit)" where
  "Clock_init self h m s = set_clock self h m s"

text \<open>
  The call \<open>Clock(...)\<close>: an argument that is left out (\<open>None\<close> here) takes the default
  of the signature of \<open>__init__\<close>, which is \<open>0\<close> for each; a fresh object is allocated
  and initialised, and the call returns it unless \<open>__init__\<close> raised.
\<close>

definition default0 :: "pyval option \<Rightarrow> pyval" where
  "default0 a = (case a of None \<Rightarrow> IntV (PInt 0) | Some v \<Rightarrow> v)"

definition Clock ::
  "pyval option \<Rightarrow> pyval option \<Rightarrow> pyval option \<Rightarrow> error + clock_obj" where
  "Clock h m s =
     (case Clock_init None (default0 h) (default0 m) (default0 s) of
        (self, Inr _) \<Rightarrow> Inr self
      | (_, Inl e) \<Rightarrow> Inl e)"

text \<open>
  The call \<open>self.set_clock(...)\<close>: the signature of \<open>set_clock\<close> has no defaults, so
  the interpreter raises \<open>TypeError\<close> before the body runs when an argument is left
  out. The wording of that message is the interpreter's.
\<close>

definition call_set_clock ::
  "clock_obj \<Rightarrow> pyval option \<Rightarrow> pyval option \<Rightarrow> pyval option \<Rightarrow> clock_obj \<times> (error + unit)" where
  "call_set_clock self h m s =
     (case (h, m, s) of
        (Some h', Some m', Some s') \<Rightarrow> set_clock self h' m' s'
      | _ \<Rightarrow> (self, Inl (TypeError ''set_clock() missing required positional arguments'')))"

text \<open>
  The \<open>while\<close> statements of lines 107-108 and 174-175: a full day is added as long as
  the total is negative.
\<close>

function add_days :: "int \<Rightarrow> int" where
  "add_days total_seconds =
     (if total_seconds < 0 then add_days (total_seconds + 24 * 3600) else total_seconds)"
  by pat_completeness auto
termination
  by (relation "measure (\<lambda>t. nat (- t))") auto

declare add_days.simps [simp del]

text \<open>
  \<open>add_seconds\<close> (lines 81-119). Python's \<open>//\<close> and \<open>%\<close> on integers round towards
  minus infinity, as \<open>div\<close> and \<open>mod\<close> on \<open>int\<close> do.
\<close>

definition add_seconds :: "clock_obj \<Rightarrow> pyval \<Rightarrow> clock_obj \<times> (error + unit)" where
  "add_seconds self seconds_to_add =
     (case seconds_to_add of
        IntV d \<Rightarrow>
          (case self of
             None \<Rightarrow> (self, Inl no_attribute)
           | Some c \<Rightarrow>
               let total_seconds = val (hours c) * 3600 + val (minutes c) * 60 + val (seconds c);
                   total_seconds = total_seconds + val d;
                   total_seconds = add_days total_seconds;
                   total_seconds = total_seconds mod (24 * 3600);
                   hours' = total_seconds div 3600;
                   remaining = total_seconds mod 3600;
                   minutes' = remaining div 60;
                   seconds' = remaining mod 60
               in set_clock self (IntV (PInt hours')) (IntV (PInt minutes')) (IntV (PInt seconds')))
      | _ \<Rightarrow> (self, Inl (TypeError ''Seconds to add must be an integer'')))"

text \<open>\<open>to_seconds\<close> (lines 147-154).\<close>

definition to_seconds :: "clock_obj \<Rightarrow> error + int" where
  "to_seconds self =
     (case self of
        None \<Rightarrow> Inl no_attribute
      | Some c \<Rightarrow> Inr (val (hours c) * 3600 + val (minutes c) * 60 + val (seconds c)))"

text \<open>\<open>from_seconds\<close> (lines 156-184), with \<open>cls\<close> the class \<open>Clock\<close> itself.\<close>

definition from_seconds :: "pyval \<Rightarrow> error + clock_obj" where
  "from_seconds total_seconds =
     (case total_seconds of
        IntV t \<Rightarrow>
          let total_seconds = add_days (val t);
              total_seconds = total_seconds mod (24 * 3600);
              hours' = total_seconds div 3600;
              remaining = total_seconds mod 3600;
              minutes' = remaining div 60;
              seconds' = remaining mod 60
          in Clock (Some (IntV (PInt hours'))) (Some (IntV (PInt minutes'))) (Some (IntV (PInt seconds')))
      | _ \<Rightarrow> Inl (TypeError ''Total seconds must be an integer''))"

text \<open>
  \<open>__eq__\<close> (lines 121-136). The other operand is a \<open>Clock\<close> or some other value; the
  result is a boolean or the constant \<open>NotImplemented\<close>. Attributes compare as numbers.
\<close>

datatype pyobj = ClockObj clock_obj | Other pyval

datatype eq_result = EqBool bool | NotImplemented

definition Clock_eq :: "clock_obj \<Rightarrow> pyobj \<Rightarrow> error + eq_result" where
  "Clock_eq self other =
     (case other of
        Other _ \<Rightarrow> Inr NotImplemented
      | ClockObj other' \<Rightarrow>
          (case (self, other') of
             (Some a, Some b) \<Rightarrow>
               Inr (EqBool (val (hours a) = val (hours b) \<and>
                            val (minutes a) = val (minutes b) \<and>
                            val (seconds a) = val (seconds b)))
           | _ \<Rightarrow> Inl no_attribute))"

text \<open>
  \<open>__hash__\<close> (lines 138-145). The built-in hash of a tuple of instances of \<open>int\<close> is
  the parameter \<open>H\<close>, a function of the numbers in the tuple: a boolean hashes as the
  integer it equals.
\<close>

definition Clock_hash :: "(int list \<Rightarrow> int) \<Rightarrow> clock_obj \<Rightarrow> error + int" where
  "Clock_hash H self =
     (case self of
        None \<Rightarrow> Inl no_attribute
      | Some c \<Rightarrow> Inr (H [val (hours c), val (minutes c), val (seconds c)]))"

section \<open>String formatting\<close>

text \<open>The decimal digits of a natural number, as \<open>str\<close> and the format code \<open>d\<close> write them.\<close>

definition digit_char :: "nat \<Rightarrow> char" where
  "digit_char n = ''0123456789'' ! n"

fun decimal :: "nat \<Rightarrow> string" where
  "decimal n = (if n < 10 then [digit_char n] else decimal (n div 10) @ [digit_char (n mod 10)])"

declare decimal.simps [simp del]

text \<open>\<open>str\<close> of an instance of \<open>int\<close>, which an empty format specification produces.\<close>

fun str_pyint :: "pyint \<Rightarrow> string" where
  "str_pyint (PInt n) = (if n < 0 then CHR ''-'' # decimal (nat (- n)) else decimal (nat n))"
| "str_pyint (PBool b) = (if b then ''True'' else ''False'')"

text \<open>
  The format specification \<open>02d\<close>: the number in decimal, with zeros between the sign
  and the digits up to a width of two. A boolean is formatted as the integer it equals.
\<close>

definition format_02d :: "pyint \<Rightarrow> string" where
  "format_02d x =
     (let sign = (if val x < 0 then ''-'' else '''');
          digits = decimal (nat \<bar>val x\<bar>)
      in sign @ replicate (2 - length sign - length digits) CHR ''0'' @ digits)"

text \<open>\<open>__str__\<close> (lines 63-70) and \<open>__repr__\<close> (lines 72-79).\<close>

definition Clock_str :: "clock_obj \<Rightarrow> error + string" where
  "Clock_str self =
     (case self of
        None \<Rightarrow> Inl no_attribute
      | Some c \<Rightarrow>
          Inr (format_02d (hours c) @ '':'' @ format_02d (minutes c) @ '':'' @
               format_02d (seconds c)))"

definition Clock_repr :: "clock_obj \<Rightarrow> error + string" where
  "Clock_repr self =
     (case self of
        None \<Rightarrow> Inl no_attribute
      | Some c \<Rightarrow>
          Inr (''Clock('' @ str_pyint (hours c) @ '', '' @ str_pyint (minutes c) @ '', '' @
               str_pyint (seconds c) @ '')''))"

section \<open>The invariant\<close>

definition valid :: "clock \<Rightarrow> bool" where
  "valid c \<longleftrightarrow>
     0 \<le> val (hours c) \<and> val (hours c) \<le> 23 \<and>
     0 \<le> val (minutes c) \<and> val (minutes c) \<le> 59 \<and>
     0 \<le> val (seconds c) \<and> val (seconds c) \<le> 59"

definition clock_inv :: "clock_obj \<Rightarrow> bool" where
  "clock_inv self = (case self of None \<Rightarrow> False | Some c \<Rightarrow> valid c)"

text \<open>
  Two abbreviations for the statements below: the expression of lines 101 and 154, the
  seconds since midnight that a clock shows, and the clock that lines 113-116 and 179-182
  compute from a total.
\<close>

definition since_midnight :: "clock \<Rightarrow> int" where
  "since_midnight c = val (hours c) * 3600 + val (minutes c) * 60 + val (seconds c)"

definition hms :: "int \<Rightarrow> clock" where
  "hms T = \<lparr>hours = PInt (T div 3600), minutes = PInt (T mod 3600 div 60),
            seconds = PInt (T mod 3600 mod 60)\<rparr>"

text \<open>
  The instances a caller can get hold of: what the constructor and \<open>from_seconds\<close>
  return, and the state an instance is in after a call of \<open>set_clock\<close> or
  \<open>add_seconds\<close>, whether the call returned or raised.
\<close>

inductive reachable :: "clock_obj \<Rightarrow> bool" where
  constructed: "Clock h m s = Inr self \<Longrightarrow> reachable self"
| converted: "from_seconds t = Inr self \<Longrightarrow> reachable self"
| after_set: "reachable self \<Longrightarrow> set_clock self h m s = (self', r) \<Longrightarrow> reachable self'"
| after_add: "reachable self \<Longrightarrow> add_seconds self d = (self', r) \<Longrightarrow> reachable self'"

section \<open>Floored modulo\<close>

text \<open>
  The floored modulo of the specification, written with the floor of the real quotient:
  the remainder that has the sign of the divisor.
\<close>

definition floor_mod :: "int \<Rightarrow> int \<Rightarrow> int" where
  "floor_mod a n = a - n * \<lfloor>real_of_int a / real_of_int n\<rfloor>"

section \<open>The string formats of the specification\<close>

text \<open>
  The formats as the specification words them, to compare \<open>__str__\<close> and \<open>__repr__\<close>
  with: a component as exactly two decimal digits; a number below 100 in decimal without
  padding; and the text of a stored field, which is that number for a plain integer and
  the name of the constant for a boolean.
\<close>

definition two_digits :: "int \<Rightarrow> string" where
  "two_digits n = [digit_char (nat n div 10), digit_char (nat n mod 10)]"

definition unpadded :: "int \<Rightarrow> string" where
  "unpadded n = (if n < 10 then [digit_char (nat n)] else two_digits n)"

fun field_text :: "pyint \<Rightarrow> string" where
  "field_text (PInt n) = unpadded n"
| "field_text (PBool b) = (if b then ''True'' else ''False'')"

text \<open>
  Reading a representation back as a constructor call, as the specification asks of the
  debug representation: the text between \<open>Clock(\<close> and \<open>)\<close> is cut at the commas, the
  blanks before each argument are dropped, and each argument is read as a literal: \<open>True\<close>,
  \<open>False\<close>, or a decimal integer with an optional minus sign. The three values are then
  handed to the constructor.
\<close>

definition digit_val :: "char \<Rightarrow> nat option" where
  "digit_val ch = map_of (zip ''0123456789'' [0, 1, 2, 3, 4, 5, 6, 7, 8, 9]) ch"

fun parse_digits :: "nat \<Rightarrow> string \<Rightarrow> nat option" where
  "parse_digits acc [] = Some acc"
| "parse_digits acc (ch # cs) =
     (case digit_val ch of None \<Rightarrow> None | Some v \<Rightarrow> parse_digits (10 * acc + v) cs)"

definition parse_nat :: "string \<Rightarrow> nat option" where
  "parse_nat s = (if s = [] then None else parse_digits 0 s)"

definition parse_literal :: "string \<Rightarrow> pyval option" where
  "parse_literal s =
     (if s = ''True'' then Some (IntV (PBool True))
      else if s = ''False'' then Some (IntV (PBool False))
      else case s of
        [] \<Rightarrow> None
      | ch # cs \<Rightarrow>
          if ch = CHR ''-''
          then map_option (\<lambda>n. IntV (PInt (- int n))) (parse_nat cs)
          else map_option (\<lambda>n. IntV (PInt (int n))) (parse_nat s))"

fun split_commas :: "string \<Rightarrow> string list" where
  "split_commas [] = [[]]"
| "split_commas (ch # cs) =
     (if ch = CHR '','' then [] # split_commas cs
      else case split_commas cs of
        [] \<Rightarrow> [[ch]]
      | t # ts \<Rightarrow> (ch # t) # ts)"

definition parse_call :: "string \<Rightarrow> (pyval \<times> pyval \<times> pyval) option" where
  "parse_call r =
     (if take 6 r = ''Clock('' \<and> last r = CHR '')''
      then case map (parse_literal \<circ> dropWhile (\<lambda>ch. ch = CHR '' ''))
                  (split_commas (butlast (drop 6 r))) of
             [Some a, Some b, Some c] \<Rightarrow> Some (a, b, c)
           | _ \<Rightarrow> None
      else None)"

definition eval_repr :: "string \<Rightarrow> (error + clock_obj) option" where
  "eval_repr r =
     (case parse_call r of
        None \<Rightarrow> None
      | Some (a, b, c) \<Rightarrow> Some (Clock (Some a) (Some b) (Some c)))"

section \<open>Arithmetic of the decomposition\<close>

lemma add_days_mod: "add_days t mod 86400 = t mod 86400"
proof (induction t rule: add_days.induct)
  case (1 t)
  show ?case
  proof (cases "t < 0")
    case True
    then have "add_days t = add_days (t + 24 * 3600)"
      by (subst add_days.simps) simp
    with 1 True show ?thesis by simp
  next
    case False
    then show ?thesis by (subst add_days.simps) simp
  qed
qed

lemma hms_bounds:
  fixes T :: int
  assumes "0 \<le> T" "T < 86400"
  shows "0 \<le> T div 3600 \<and> T div 3600 < 24 \<and>
    0 \<le> T mod 3600 div 60 \<and> T mod 3600 div 60 < 60 \<and>
    0 \<le> T mod 3600 mod 60 \<and> T mod 3600 mod 60 < 60"
  using assms by auto

lemma hms_recompose:
  fixes T :: int
  shows "T div 3600 * 3600 + T mod 3600 div 60 * 60 + T mod 3600 mod 60 = T"
  by presburger

section \<open>What the operations compute\<close>

lemma set_clock_ints:
  "set_clock self (IntV h) (IntV m) (IntV s) =
     (if \<not> (0 \<le> val h \<and> val h < 24)
      then (self, Inl (ValueError ''Hours must be between 0 and 23''))
      else if \<not> (0 \<le> val m \<and> val m < 60)
      then (self, Inl (ValueError ''Minutes must be between 0 and 59''))
      else if \<not> (0 \<le> val s \<and> val s < 60)
      then (self, Inl (ValueError ''Seconds must be between 0 and 59''))
      else (Some \<lparr>hours = h, minutes = m, seconds = s\<rparr>, Inr ()))"
  by (simp add: set_clock_def)

lemma set_clock_not_int:
  "\<not> (isinstance_int h \<and> isinstance_int m \<and> isinstance_int s) \<Longrightarrow>
   set_clock self h m s = (self, Inl (TypeError ''All time components must be integers''))"
  by (auto simp: set_clock_def)

lemma set_clock_raise_unchanged:
  "set_clock self h m s = (self', Inl e) \<Longrightarrow> self' = self"
  by (cases h; cases m; cases s) (auto simp: set_clock_def split: if_splits)

lemma set_clock_return_valid:
  "set_clock self h m s = (self', Inr u) \<Longrightarrow> clock_inv self'"
  by (cases h; cases m; cases s)
     (auto simp: set_clock_def clock_inv_def valid_def split: if_splits)

lemma since_midnight_hms: "since_midnight (hms T) = T"
  by (simp add: since_midnight_def hms_def hms_recompose)

lemma valid_hms: "0 \<le> T \<Longrightarrow> T < 86400 \<Longrightarrow> valid (hms T)"
  using hms_bounds [of T] by (simp add: valid_def hms_def)

lemma set_clock_hms:
  fixes T :: int
  assumes "0 \<le> T" "T < 86400"
  shows "set_clock self (IntV (PInt (T div 3600))) (IntV (PInt (T mod 3600 div 60)))
           (IntV (PInt (T mod 3600 mod 60))) = (Some (hms T), Inr ())"
  using hms_bounds [OF assms] by (simp add: set_clock_ints hms_def)

lemma add_seconds_eq:
  "add_seconds (Some c) (IntV d) = (Some (hms ((since_midnight c + val d) mod 86400)), Inr ())"
proof -
  define T where "T = (since_midnight c + val d) mod 86400"
  have T: "0 \<le> T" "T < 86400" by (simp_all add: T_def)
  have "add_seconds (Some c) (IntV d) =
        set_clock (Some c) (IntV (PInt (T div 3600))) (IntV (PInt (T mod 3600 div 60)))
          (IntV (PInt (T mod 3600 mod 60)))"
    by (simp add: add_seconds_def Let_def add_days_mod T_def since_midnight_def)
  also note set_clock_hms [OF T]
  finally show ?thesis by (simp only: T_def)
qed

lemma from_seconds_eq: "from_seconds (IntV t) = Inr (Some (hms (val t mod 86400)))"
proof -
  define T where "T = val t mod 86400"
  have T: "0 \<le> T" "T < 86400" by (simp_all add: T_def)
  have "from_seconds (IntV t) =
        Clock (Some (IntV (PInt (T div 3600)))) (Some (IntV (PInt (T mod 3600 div 60))))
          (Some (IntV (PInt (T mod 3600 mod 60))))"
    by (simp add: from_seconds_def Let_def add_days_mod T_def)
  also have "\<dots> = Inr (Some (hms T))"
    by (simp add: Clock_def Clock_init_def default0_def set_clock_hms [OF T])
  finally show ?thesis by (simp only: T_def)
qed

lemma to_seconds_eq: "to_seconds (Some c) = Inr (since_midnight c)"
  by (simp add: to_seconds_def since_midnight_def)

lemma floor_mod_eq: "floor_mod a n = a mod n"
  by (simp add: floor_mod_def floor_divide_of_int_eq minus_mult_div_eq_mod)

lemma Clock_return_valid: "Clock h m s = Inr self \<Longrightarrow> clock_inv self"
  by (auto simp: Clock_def Clock_init_def split: prod.splits sum.splits
        dest: set_clock_return_valid)

lemma from_seconds_return_valid:
  assumes "from_seconds t = Inr self"
  shows "clock_inv self"
proof (cases t)
  case (IntV x)
  with assms have "self = Some (hms (val x mod 86400))"
    by (simp add: from_seconds_eq)
  then show ?thesis by (simp add: clock_inv_def valid_hms)
qed (use assms in \<open>simp_all add: from_seconds_def\<close>)

lemma set_clock_keeps_inv:
  "clock_inv self \<Longrightarrow> set_clock self h m s = (self', r) \<Longrightarrow> clock_inv self'"
  by (cases r) (auto dest: set_clock_raise_unchanged set_clock_return_valid)

lemma add_seconds_raise_unchanged:
  assumes "add_seconds self d = (self', Inl e)"
  shows "self' = self"
proof (cases d)
  case (IntV x)
  show ?thesis
  proof (cases self)
    case None
    with IntV assms show ?thesis by (simp add: add_seconds_def)
  next
    case (Some c)
    with IntV assms show ?thesis by (simp add: add_seconds_eq)
  qed
qed (use assms in \<open>simp_all add: add_seconds_def\<close>)

lemma add_seconds_keeps_inv:
  assumes "clock_inv self" and "add_seconds self d = (self', r)"
  shows "clock_inv self'"
proof (cases r)
  case (Inl e)
  with assms show ?thesis by (auto dest: add_seconds_raise_unchanged)
next
  case (Inr u)
  from assms(1) obtain c where c: "self = Some c"
    by (cases self) (simp_all add: clock_inv_def)
  show ?thesis
  proof (cases d)
    case (IntV x)
    with assms(2) c have "self' = Some (hms ((since_midnight c + val x) mod 86400))"
      by (simp add: add_seconds_eq)
    then show ?thesis by (simp add: clock_inv_def valid_hms)
  qed (use assms(2) Inr in \<open>simp_all add: add_seconds_def\<close>)
qed

section \<open>The invariant of the data model\<close>

text \<open>
  Claim C1. Every instance that is reachable through the constructor, \<open>from_seconds\<close>,
  \<open>set_clock\<close> and \<open>add_seconds\<close> has all three attributes, with
  \<open>0 \<le> hours \<le> 23\<close>, \<open>0 \<le> minutes \<le> 59\<close> and \<open>0 \<le> seconds \<le> 59\<close>. The
  steps of \<open>reachable\<close> range over every input and over both outcomes of a call, so
  each operation leaves a valid instance valid, whether it returns or raises.
\<close>

theorem clock_invariant: "reachable self \<Longrightarrow> clock_inv self"
proof (induction rule: reachable.induct)
  case (constructed h m s self)
  then show ?case by (rule Clock_return_valid)
next
  case (converted t self)
  then show ?case by (rule from_seconds_return_valid)
next
  case (after_set self h m s self' r)
  then show ?case by (blast intro: set_clock_keeps_inv)
next
  case (after_add self d self' r)
  then show ?case by (blast intro: add_seconds_keeps_inv)
qed

theorem clock_invariant_witness:
  "reachable (Some (hms 86399)) \<and> clock_inv (Some (hms 86399))"
proof -
  have a: "Clock None None None = Inr (Some \<lparr>hours = PInt 0, minutes = PInt 0, seconds = PInt 0\<rparr>)"
    by (simp add: Clock_def Clock_init_def default0_def set_clock_ints)
  have b: "add_seconds (Some \<lparr>hours = PInt 0, minutes = PInt 0, seconds = PInt 0\<rparr>) (IntV (PInt (- 1)))
           = (Some (hms 86399), Inr ())"
    by (simp add: add_seconds_eq since_midnight_def)
  have r: "reachable (Some (hms 86399))"
    by (rule reachable.after_add [OF reachable.constructed [OF a] b])
  from r clock_invariant [OF r] show ?thesis by simp
qed

section \<open>Adding seconds\<close>

text \<open>
  Claim C2. For all instances \<open>x\<close> and \<open>d\<close> of \<open>int\<close>, of either sign and any size,
  \<open>from_seconds(x)\<close> returns a clock, \<open>add_seconds(d)\<close> on it returns, and the clock
  it leaves compares equal to the one that \<open>from_seconds(x + d)\<close> returns.
\<close>

theorem add_seconds_additive:
  "\<exists>a b b'. from_seconds (IntV x) = Inr a \<and> add_seconds a (IntV d) = (b, Inr ()) \<and>
          from_seconds (IntV (PInt (val x + val d))) = Inr b' \<and>
          Clock_eq b (ClockObj b') = Inr (EqBool True)"
proof -
  have "(since_midnight (hms (val x mod 86400)) + val d) mod 86400 = (val x + val d) mod 86400"
    by (simp add: since_midnight_hms mod_add_left_eq)
  then show ?thesis
    by (simp add: from_seconds_eq add_seconds_eq Clock_eq_def)
qed

text \<open>
  Claim C3. Adding a day while the total is negative and then taking the remainder
  modulo 86400 gives the floored modulo of the total. For every clock and every delta
  \<open>d\<close>, \<open>add_seconds(d)\<close> returns and \<open>to_seconds()\<close> is afterwards the floored modulo of
  the old \<open>to_seconds()\<close> plus \<open>d\<close>. \<open>Clock(0, 0, 0).add_seconds(-1)\<close> shows \<open>23:59:59\<close>.
\<close>

theorem add_seconds_floor_mod:
  "add_days t mod (24 * 3600) = floor_mod t 86400 \<and>
   (\<exists>old c'. to_seconds (Some c) = Inr old \<and>
      add_seconds (Some c) (IntV d) = (Some c', Inr ()) \<and>
      to_seconds (Some c') = Inr (floor_mod (old + val d) 86400)) \<and>
   Clock (Some (IntV (PInt 0))) (Some (IntV (PInt 0))) (Some (IntV (PInt 0))) =
     Inr (Some \<lparr>hours = PInt 0, minutes = PInt 0, seconds = PInt 0\<rparr>) \<and>
   add_seconds (Some \<lparr>hours = PInt 0, minutes = PInt 0, seconds = PInt 0\<rparr>) (IntV (PInt (- 1))) =
     (Some \<lparr>hours = PInt 23, minutes = PInt 59, seconds = PInt 59\<rparr>, Inr ()) \<and>
   Clock_str (Some \<lparr>hours = PInt 23, minutes = PInt 59, seconds = PInt 59\<rparr>) = Inr ''23:59:59''"
proof -
  have 1: "add_days t mod (24 * 3600) = floor_mod t 86400"
    by (simp add: floor_mod_eq add_days_mod)
  have 2: "\<exists>old c'. to_seconds (Some c) = Inr old \<and>
      add_seconds (Some c) (IntV d) = (Some c', Inr ()) \<and>
      to_seconds (Some c') = Inr (floor_mod (old + val d) 86400)"
    by (simp add: to_seconds_eq add_seconds_eq since_midnight_hms floor_mod_eq)
  have 3: "Clock (Some (IntV (PInt 0))) (Some (IntV (PInt 0))) (Some (IntV (PInt 0))) =
     Inr (Some \<lparr>hours = PInt 0, minutes = PInt 0, seconds = PInt 0\<rparr>)"
    by (simp add: Clock_def Clock_init_def default0_def set_clock_ints)
  have 4: "add_seconds (Some \<lparr>hours = PInt 0, minutes = PInt 0, seconds = PInt 0\<rparr>) (IntV (PInt (- 1))) =
     (Some \<lparr>hours = PInt 23, minutes = PInt 59, seconds = PInt 59\<rparr>, Inr ())"
    by (simp add: add_seconds_eq since_midnight_def hms_def)
  have 5: "Clock_str (Some \<lparr>hours = PInt 23, minutes = PInt 59, seconds = PInt 59\<rparr>) = Inr ''23:59:59''"
    by (simp add: Clock_str_def format_02d_def decimal.simps digit_char_def)
  from 1 2 3 4 5 show ?thesis by blast
qed

section \<open>Validation and construction\<close>

lemma hms_digits:
  fixes a b c :: int
  assumes "0 \<le> b" "b \<le> 59" "0 \<le> c" "c \<le> 59"
  shows "(a * 3600 + b * 60 + c) div 3600 = a"
    and "(a * 3600 + b * 60 + c) mod 3600 div 60 = b"
    and "(a * 3600 + b * 60 + c) mod 3600 mod 60 = c"
proof -
  have r: "0 \<le> b * 60 + c" "b * 60 + c < 3600" using assms by simp_all
  have "a * 3600 + b * 60 + c = b * 60 + c + a * 3600" by simp
  then have d: "(a * 3600 + b * 60 + c) div 3600 = a"
    and m: "(a * 3600 + b * 60 + c) mod 3600 = b * 60 + c"
    using r by (simp_all only: div_mult_self2 mod_mult_self2 div_pos_pos_trivial mod_pos_pos_trivial) simp_all
  show "(a * 3600 + b * 60 + c) div 3600 = a" by (rule d)
  show "(a * 3600 + b * 60 + c) mod 3600 div 60 = b"
    using assms by (simp add: m)
  show "(a * 3600 + b * 60 + c) mod 3600 mod 60 = c"
    using assms by (simp add: m)
qed

lemma Clock_all_given:
  "Clock (Some h) (Some m) (Some s) =
     (case set_clock None h m s of (self, Inr u) \<Rightarrow> Inr self | (self, Inl e) \<Rightarrow> Inl e)"
  by (simp add: Clock_def Clock_init_def default0_def)

text \<open>
  Claim C4. \<open>set_clock\<close> and the constructor raise \<open>TypeError\<close> when an argument is not
  an instance of \<open>int\<close>, whatever the other arguments are; with three such instances they
  raise \<open>ValueError\<close> for the first of hours, minutes, seconds that is out of bounds;
  and whenever \<open>set_clock\<close> raises, the instance is in the state it was in before.
\<close>

theorem set_clock_failure_contract:
  "(\<not> (isinstance_int h \<and> isinstance_int m \<and> isinstance_int s) \<longrightarrow>
      set_clock self h m s = (self, Inl (TypeError ''All time components must be integers'')) \<and>
      Clock (Some h) (Some m) (Some s) = Inl (TypeError ''All time components must be integers'')) \<and>
   (\<not> (0 \<le> val x \<and> val x \<le> 23) \<longrightarrow>
      set_clock self (IntV x) (IntV y) (IntV z) =
        (self, Inl (ValueError ''Hours must be between 0 and 23'')) \<and>
      Clock (Some (IntV x)) (Some (IntV y)) (Some (IntV z)) =
        Inl (ValueError ''Hours must be between 0 and 23'')) \<and>
   (0 \<le> val x \<and> val x \<le> 23 \<and> \<not> (0 \<le> val y \<and> val y \<le> 59) \<longrightarrow>
      set_clock self (IntV x) (IntV y) (IntV z) =
        (self, Inl (ValueError ''Minutes must be between 0 and 59'')) \<and>
      Clock (Some (IntV x)) (Some (IntV y)) (Some (IntV z)) =
        Inl (ValueError ''Minutes must be between 0 and 59'')) \<and>
   (0 \<le> val x \<and> val x \<le> 23 \<and> 0 \<le> val y \<and> val y \<le> 59 \<and> \<not> (0 \<le> val z \<and> val z \<le> 59) \<longrightarrow>
      set_clock self (IntV x) (IntV y) (IntV z) =
        (self, Inl (ValueError ''Seconds must be between 0 and 59'')) \<and>
      Clock (Some (IntV x)) (Some (IntV y)) (Some (IntV z)) =
        Inl (ValueError ''Seconds must be between 0 and 59'')) \<and>
   (\<forall>self' e. set_clock self h m s = (self', Inl e) \<longrightarrow> self' = self)"
proof -
  have unchanged: "\<forall>self' e. set_clock self h m s = (self', Inl e) \<longrightarrow> self' = self"
    by (blast dest: set_clock_raise_unchanged)
  have ty: "\<not> (isinstance_int h \<and> isinstance_int m \<and> isinstance_int s) \<longrightarrow>
      set_clock self h m s = (self, Inl (TypeError ''All time components must be integers'')) \<and>
      Clock (Some h) (Some m) (Some s) = Inl (TypeError ''All time components must be integers'')"
    by (simp add: Clock_all_given set_clock_not_int)
  have rg: "set_clock self (IntV x) (IntV y) (IntV z) =
     (if \<not> (0 \<le> val x \<and> val x \<le> 23)
      then (self, Inl (ValueError ''Hours must be between 0 and 23''))
      else if \<not> (0 \<le> val y \<and> val y \<le> 59)
      then (self, Inl (ValueError ''Minutes must be between 0 and 59''))
      else if \<not> (0 \<le> val z \<and> val z \<le> 59)
      then (self, Inl (ValueError ''Seconds must be between 0 and 59''))
      else (Some \<lparr>hours = x, minutes = y, seconds = z\<rparr>, Inr ()))" for self
    by (simp add: set_clock_ints)
  show ?thesis
    using unchanged ty by (simp add: Clock_all_given rg)
qed

theorem set_clock_failure_contract_witness:
  "set_clock (Some (hms 45045)) (IntV (PInt 7)) (PStr ''30'') (IntV (PInt 99)) =
     (Some (hms 45045), Inl (TypeError ''All time components must be integers'')) \<and>
   set_clock (Some (hms 45045)) (IntV (PInt 24)) (IntV (PInt 60)) (IntV (PInt 60)) =
     (Some (hms 45045), Inl (ValueError ''Hours must be between 0 and 23'')) \<and>
   set_clock (Some (hms 45045)) (IntV (PInt 23)) (IntV (PInt (- 1))) (IntV (PInt 60)) =
     (Some (hms 45045), Inl (ValueError ''Minutes must be between 0 and 59'')) \<and>
   set_clock (Some (hms 45045)) (IntV (PInt 23)) (IntV (PInt 59)) (IntV (PInt 60)) =
     (Some (hms 45045), Inl (ValueError ''Seconds must be between 0 and 59'')) \<and>
   Clock (Some (IntV (PInt 7))) (Some (PFloat 3 (- 1))) (Some (IntV (PInt 0))) =
     Inl (TypeError ''All time components must be integers'')"
  using set_clock_failure_contract [where h = "IntV (PInt 7)" and m = "PStr ''30''"
      and s = "IntV (PInt 99)" and x = "PInt 24" and y = "PInt 60" and z = "PInt 60"
      and self = "Some (hms 45045)"]
    set_clock_failure_contract [where h = "IntV (PInt 7)" and m = "PFloat 3 (- 1)"
      and s = "IntV (PInt 0)" and x = "PInt 23" and y = "PInt (- 1)" and z = "PInt 60"
      and self = "Some (hms 45045)"]
    set_clock_failure_contract [where h = "IntV (PInt 7)" and m = "PFloat 3 (- 1)"
      and s = "IntV (PInt 0)" and x = "PInt 23" and y = "PInt 59" and z = "PInt 60"
      and self = "Some (hms 45045)"]
  by simp

text \<open>
  Claim C5. For \<open>h\<close> in \<open>[0, 23]\<close> and \<open>m\<close>, \<open>s\<close> in \<open>[0, 59]\<close> the constructor returns
  a clock whose fields are \<open>h\<close>, \<open>m\<close>, \<open>s\<close>, and \<open>from_seconds\<close> of its
  \<open>to_seconds()\<close> returns a clock that compares equal to it. Every valid clock is of
  that form.
\<close>

theorem round_trips:
  assumes "0 \<le> val h" "val h \<le> 23" "0 \<le> val m" "val m \<le> 59" "0 \<le> val s" "val s \<le> 59"
  shows "\<exists>c t c'. Clock (Some (IntV h)) (Some (IntV m)) (Some (IntV s)) = Inr (Some c) \<and>
           hours c = h \<and> minutes c = m \<and> seconds c = s \<and>
           to_seconds (Some c) = Inr t \<and>
           from_seconds (IntV (PInt t)) = Inr (Some c') \<and>
           Clock_eq (Some c') (ClockObj (Some c)) = Inr (EqBool True)"
proof -
  define c where "c = \<lparr>hours = h, minutes = m, seconds = s\<rparr>"
  have 1: "Clock (Some (IntV h)) (Some (IntV m)) (Some (IntV s)) = Inr (Some c)"
    using assms by (simp add: Clock_all_given set_clock_ints c_def)
  have t: "0 \<le> since_midnight c" "since_midnight c < 86400"
    using assms by (simp_all add: since_midnight_def c_def)
  have 2: "from_seconds (IntV (PInt (since_midnight c))) = Inr (Some (hms (since_midnight c)))"
    using t by (simp add: from_seconds_eq)
  have 3: "Clock_eq (Some (hms (since_midnight c))) (ClockObj (Some c)) = Inr (EqBool True)"
    using assms by (simp add: Clock_eq_def hms_def since_midnight_def c_def hms_digits)
  have 4: "hours c = h \<and> minutes c = m \<and> seconds c = s" by (simp add: c_def)
  from 1 2 3 4 show ?thesis by (auto simp: to_seconds_eq)
qed

theorem round_trips_witness:
  "\<exists>c t c'. Clock (Some (IntV (PInt 23))) (Some (IntV (PBool True))) (Some (IntV (PInt 59))) =
             Inr (Some c) \<and>
           hours c = PInt 23 \<and> minutes c = PBool True \<and> seconds c = PInt 59 \<and>
           to_seconds (Some c) = Inr t \<and>
           from_seconds (IntV (PInt t)) = Inr (Some c') \<and>
           Clock_eq (Some c') (ClockObj (Some c)) = Inr (EqBool True)"
  using round_trips [of "PInt 23" "PBool True" "PInt 59"] by simp

section \<open>Equality and hashing\<close>

text \<open>
  Claim C7. \<open>__eq__\<close> on two clocks returns whether hours, minutes and seconds agree
  component by component, as numbers; on a value that is not a clock it returns
  \<open>NotImplemented\<close> and raises nothing; and two clocks that compare equal have the same
  hash, whichever way they were built.
\<close>

theorem equality_and_hash:
  "Clock_eq (Some a) (ClockObj (Some b)) =
     Inr (EqBool (val (hours a) = val (hours b) \<and> val (minutes a) = val (minutes b) \<and>
                  val (seconds a) = val (seconds b))) \<and>
   Clock_eq self (Other v) = Inr NotImplemented \<and>
   (Clock_eq x (ClockObj y) = Inr (EqBool True) \<longrightarrow>
      (\<exists>n. Clock_hash H x = Inr n \<and> Clock_hash H y = Inr n))"
proof -
  have "\<exists>n. Clock_hash H x = Inr n \<and> Clock_hash H y = Inr n"
    if "Clock_eq x (ClockObj y) = Inr (EqBool True)"
  proof -
    from that obtain c c' where "x = Some c" "y = Some c'"
      by (cases x; cases y) (simp_all add: Clock_eq_def)
    with that show ?thesis by (simp add: Clock_eq_def Clock_hash_def)
  qed
  then show ?thesis by (simp add: Clock_eq_def)
qed

theorem equality_and_hash_witness:
  "Clock (Some (IntV (PInt 9))) (Some (IntV (PInt 30))) (Some (IntV (PBool False))) =
     Inr (Some \<lparr>hours = PInt 9, minutes = PInt 30, seconds = PBool False\<rparr>) \<and>
   from_seconds (IntV (PInt 34200)) = Inr (Some (hms 34200)) \<and>
   Clock_eq (Some \<lparr>hours = PInt 9, minutes = PInt 30, seconds = PBool False\<rparr>)
     (ClockObj (Some (hms 34200))) = Inr (EqBool True) \<and>
   Clock_hash sum_list (Some \<lparr>hours = PInt 9, minutes = PInt 30, seconds = PBool False\<rparr>) =
     Clock_hash sum_list (Some (hms 34200))"
proof -
  have e: "Clock_eq (Some \<lparr>hours = PInt 9, minutes = PInt 30, seconds = PBool False\<rparr>)
     (ClockObj (Some (hms 34200))) = Inr (EqBool True)"
    by (simp add: Clock_eq_def hms_def)
  have c: "Clock (Some (IntV (PInt 9))) (Some (IntV (PInt 30))) (Some (IntV (PBool False))) =
     Inr (Some \<lparr>hours = PInt 9, minutes = PInt 30, seconds = PBool False\<rparr>)"
    by (simp add: Clock_all_given set_clock_ints)
  have f: "from_seconds (IntV (PInt 34200)) = Inr (Some (hms 34200))"
    by (simp add: from_seconds_eq)
  from equality_and_hash [where x = "Some \<lparr>hours = PInt 9, minutes = PInt 30, seconds = PBool False\<rparr>"
      and y = "Some (hms 34200)" and H = sum_list] e
  obtain n where
    "Clock_hash sum_list (Some \<lparr>hours = PInt 9, minutes = PInt 30, seconds = PBool False\<rparr>) = Inr n"
    "Clock_hash sum_list (Some (hms 34200)) = Inr n"
    by blast
  with e c f show ?thesis by simp
qed

section \<open>The range check after a decomposition\<close>

text \<open>
  Claim C8. The hours, minutes and seconds that the normalisation and the divisions
  produce are within bounds for every total, so the \<open>set_clock\<close> they are handed to
  returns; \<open>add_seconds\<close> with an instance of \<open>int\<close> returns on every clock, and so does
  \<open>from_seconds\<close>: neither raises \<open>ValueError\<close>.
\<close>

theorem no_range_error:
  "(let T = add_days x mod (24 * 3600) in
      0 \<le> T div 3600 \<and> T div 3600 \<le> 23 \<and>
      0 \<le> T mod 3600 div 60 \<and> T mod 3600 div 60 \<le> 59 \<and>
      0 \<le> T mod 3600 mod 60 \<and> T mod 3600 mod 60 \<le> 59 \<and>
      snd (set_clock self (IntV (PInt (T div 3600))) (IntV (PInt (T mod 3600 div 60)))
             (IntV (PInt (T mod 3600 mod 60)))) = Inr ()) \<and>
   snd (add_seconds (Some c) (IntV d)) = Inr () \<and>
   (\<exists>c'. from_seconds (IntV t) = Inr (Some c'))"
proof -
  define T where "T = add_days x mod (24 * 3600)"
  have T: "0 \<le> T" "T < 86400" by (simp_all add: T_def)
  have "0 \<le> T div 3600 \<and> T div 3600 \<le> 23 \<and>
      0 \<le> T mod 3600 div 60 \<and> T mod 3600 div 60 \<le> 59 \<and>
      0 \<le> T mod 3600 mod 60 \<and> T mod 3600 mod 60 \<le> 59 \<and>
      snd (set_clock self (IntV (PInt (T div 3600))) (IntV (PInt (T mod 3600 div 60)))
             (IntV (PInt (T mod 3600 mod 60)))) = Inr ()"
    using hms_bounds [OF T] by (simp add: set_clock_hms [OF T])
  then show ?thesis
    by (simp add: T_def Let_def add_seconds_eq from_seconds_eq)
qed

section \<open>Defaults\<close>

text \<open>
  Claim C9, as the code has it. The defaults are those of the constructor: an argument of
  \<open>Clock(...)\<close> that is left out counts as \<open>0\<close>, and \<open>Clock()\<close> is \<open>00:00:00\<close>.
  \<open>set_clock\<close> has no defaults: with its three arguments the call runs the body, and
  with one left out it raises \<open>TypeError\<close> and the instance keeps its state.
\<close>

theorem constructor_defaults:
  "Clock None m s = Clock (Some (IntV (PInt 0))) m s \<and>
   Clock h None s = Clock h (Some (IntV (PInt 0))) s \<and>
   Clock h m None = Clock h m (Some (IntV (PInt 0))) \<and>
   Clock None None None = Inr (Some \<lparr>hours = PInt 0, minutes = PInt 0, seconds = PInt 0\<rparr>) \<and>
   Clock_str (Some \<lparr>hours = PInt 0, minutes = PInt 0, seconds = PInt 0\<rparr>) = Inr ''00:00:00'' \<and>
   call_set_clock self (Some h') (Some m') (Some s') = set_clock self h' m' s' \<and>
   (h = None \<or> m = None \<or> s = None \<longrightarrow>
      call_set_clock self h m s =
        (self, Inl (TypeError ''set_clock() missing required positional arguments'')))"
proof -
  have "Clock_str (Some \<lparr>hours = PInt 0, minutes = PInt 0, seconds = PInt 0\<rparr>) = Inr ''00:00:00''"
    by (simp add: Clock_str_def format_02d_def decimal.simps digit_char_def)
  moreover have "h = None \<or> m = None \<or> s = None \<longrightarrow>
      call_set_clock self h m s =
        (self, Inl (TypeError ''set_clock() missing required positional arguments''))"
    by (auto simp: call_set_clock_def split: option.splits)
  ultimately show ?thesis
    by (simp add: Clock_def Clock_init_def default0_def set_clock_ints call_set_clock_def)
qed

theorem constructor_defaults_witness:
  "Clock None (Some (IntV (PInt 30))) None =
     Inr (Some \<lparr>hours = PInt 0, minutes = PInt 30, seconds = PInt 0\<rparr>) \<and>
   call_set_clock (Some (hms 45045)) (Some (IntV (PInt 7))) None None =
     (Some (hms 45045), Inl (TypeError ''set_clock() missing required positional arguments''))"
  using constructor_defaults [where h = "Some (IntV (PInt 7))" and m = None and s = None
      and self = "Some (hms 45045)"]
    constructor_defaults [where h = None and m = "Some (IntV (PInt 30))" and s = None]
  by (simp add: Clock_def Clock_init_def default0_def set_clock_ints)

text \<open>
  Claim C9 as stated fails: \<open>set_clock()\<close> on a clock showing \<open>12:30:45\<close> raises
  \<open>TypeError\<close> and leaves \<open>12:30:45\<close>, where \<open>set_clock(0, 0, 0)\<close> would return.
\<close>

theorem set_clock_defaults_counterexample:
  "call_set_clock (Some \<lparr>hours = PInt 12, minutes = PInt 30, seconds = PInt 45\<rparr>) None None None =
     (Some \<lparr>hours = PInt 12, minutes = PInt 30, seconds = PInt 45\<rparr>,
      Inl (TypeError ''set_clock() missing required positional arguments'')) \<and>
   call_set_clock (Some \<lparr>hours = PInt 12, minutes = PInt 30, seconds = PInt 45\<rparr>) None None None \<noteq>
     set_clock (Some \<lparr>hours = PInt 12, minutes = PInt 30, seconds = PInt 45\<rparr>)
       (IntV (PInt 0)) (IntV (PInt 0)) (IntV (PInt 0))"
  by (simp add: call_set_clock_def set_clock_ints)

section \<open>Booleans\<close>

text \<open>
  Claim C10. Booleans pass \<open>isinstance(x, int)\<close>: the constructor and \<open>set_clock\<close>
  return on any three booleans and store them, \<open>Clock(True, False, False)\<close> shows
  \<open>01:00:00\<close>, and \<open>add_seconds\<close> and \<open>from_seconds\<close> treat a boolean as the integer
  it equals and return.
\<close>

theorem booleans_accepted:
  "Clock (Some (IntV (PBool a))) (Some (IntV (PBool b))) (Some (IntV (PBool e))) =
     Inr (Some \<lparr>hours = PBool a, minutes = PBool b, seconds = PBool e\<rparr>) \<and>
   set_clock self (IntV (PBool a)) (IntV (PBool b)) (IntV (PBool e)) =
     (Some \<lparr>hours = PBool a, minutes = PBool b, seconds = PBool e\<rparr>, Inr ()) \<and>
   Clock_str (Some \<lparr>hours = PBool True, minutes = PBool False, seconds = PBool False\<rparr>) =
     Inr ''01:00:00'' \<and>
   add_seconds (Some c) (IntV (PBool a)) = add_seconds (Some c) (IntV (PInt (if a then 1 else 0))) \<and>
   snd (add_seconds (Some c) (IntV (PBool a))) = Inr () \<and>
   from_seconds (IntV (PBool a)) = from_seconds (IntV (PInt (if a then 1 else 0))) \<and>
   from_seconds (IntV (PBool a)) = Inr (Some (hms (if a then 1 else 0)))"
proof -
  have "Clock_str (Some \<lparr>hours = PBool True, minutes = PBool False, seconds = PBool False\<rparr>) =
     Inr ''01:00:00''"
    by (simp add: Clock_str_def format_02d_def decimal.simps digit_char_def)
  then show ?thesis
    by (simp add: Clock_all_given set_clock_ints add_seconds_eq from_seconds_eq)
qed

section \<open>String representations\<close>

lemma below_ten: "n < 10 \<Longrightarrow> n \<in> {0, 1, 2, 3, 4, 5, 6, 7, 8, 9 :: nat}"
  by auto

lemma digit_val_digit_char: "n < 10 \<Longrightarrow> digit_val (digit_char n) = Some n"
  by (drule below_ten) (auto simp: digit_val_def digit_char_def)

lemma digit_char_plain:
  "n < 10 \<Longrightarrow> digit_char n \<noteq> CHR '','' \<and> digit_char n \<noteq> CHR ''-'' \<and> digit_char n \<noteq> CHR '' ''
     \<and> digit_char n \<noteq> CHR ''T'' \<and> digit_char n \<noteq> CHR ''F''"
  by (drule below_ten) (auto simp: digit_char_def)

lemma parse_digits_snoc:
  "parse_digits acc (cs @ [ch]) =
     (case parse_digits acc cs of
        None \<Rightarrow> None
      | Some a \<Rightarrow> (case digit_val ch of None \<Rightarrow> None | Some v \<Rightarrow> Some (10 * a + v)))"
  by (induction cs arbitrary: acc) (simp_all split: option.splits)

lemma parse_digits_decimal: "parse_digits 0 (decimal n) = Some n"
proof (induction n rule: decimal.induct)
  case (1 n)
  show ?case
  proof (cases "n < 10")
    case True
    then show ?thesis by (simp add: decimal.simps [of n] digit_val_digit_char)
  next
    case False
    with 1 have "parse_digits 0 (decimal (n div 10)) = Some (n div 10)" by simp
    with False show ?thesis
      by (simp add: decimal.simps [of n] parse_digits_snoc digit_val_digit_char)
  qed
qed

lemma decimal_chars:
  "ch \<in> set (decimal n) \<Longrightarrow> \<exists>k < 10. ch = digit_char k"
proof (induction n rule: decimal.induct)
  case (1 n)
  show ?case
  proof (cases "n < 10")
    case True
    with 1(2) show ?thesis by (auto simp: decimal.simps [of n])
  next
    case False
    with 1 show ?thesis
      by (auto simp: decimal.simps [of n] intro: exI [of _ "n mod 10"])
  qed
qed

lemma decimal_nonempty: "decimal n \<noteq> []"
  by (subst decimal.simps) simp

lemma hd_decimal: "\<exists>k < 10. hd (decimal n) = digit_char k"
  using decimal_chars [of "hd (decimal n)" n] decimal_nonempty [of n] by simp

lemma decimal_Cons: "\<exists>k cs. k < 10 \<and> decimal n = digit_char k # cs"
  using hd_decimal [of n] decimal_nonempty [of n] by (cases "decimal n") auto

lemma parse_nat_decimal: "parse_nat (decimal n) = Some n"
  by (simp add: parse_nat_def decimal_nonempty parse_digits_decimal)

lemma parse_literal_decimal: "parse_literal (decimal n) = Some (IntV (PInt (int n)))"
proof -
  obtain k cs where k: "k < 10" and d: "decimal n = digit_char k # cs"
    using decimal_Cons by blast
  have "parse_nat (digit_char k # cs) = Some n"
    using parse_nat_decimal [of n] by (simp add: d)
  then show ?thesis
    using digit_char_plain [OF k] by (simp add: parse_literal_def d)
qed

lemma parse_literal_str: "parse_literal (str_pyint x) = Some (IntV x)"
proof (cases x)
  case (PInt n)
  show ?thesis
  proof (cases "n < 0")
    case True
    then show ?thesis
      by (simp add: PInt parse_literal_def parse_nat_decimal)
  next
    case False
    then show ?thesis by (simp add: PInt parse_literal_decimal)
  qed
next
  case (PBool b)
  then show ?thesis by (simp add: parse_literal_def)
qed

lemma str_pyint_no_comma: "CHR '','' \<notin> set (str_pyint x)"
proof (cases x)
  case (PInt n)
  have "CHR '','' \<notin> set (decimal k)" for k
    using decimal_chars [of "CHR '',''" k] digit_char_plain by metis
  then show ?thesis by (simp add: PInt)
next
  case (PBool b)
  then show ?thesis by simp
qed

lemma str_pyint_no_blank: "dropWhile (\<lambda>ch. ch = CHR '' '') (str_pyint x) = str_pyint x"
proof (cases x)
  case (PInt n)
  obtain k cs where k: "k < 10" and d: "decimal (nat n) = digit_char k # cs"
    using decimal_Cons by blast
  show ?thesis
    using digit_char_plain [OF k] by (simp add: PInt d)
next
  case (PBool b)
  then show ?thesis by simp
qed

lemma split_commas_nonempty: "split_commas cs \<noteq> []"
  by (induction cs) (simp_all split: list.splits)

lemma split_commas_token:
  "CHR '','' \<notin> set t \<Longrightarrow> split_commas (t @ CHR '','' # rest) = t # split_commas rest"
  by (induction t) auto

lemma split_commas_last: "CHR '','' \<notin> set t \<Longrightarrow> split_commas t = [t]"
  by (induction t) auto

lemma split_commas_three:
  assumes "CHR '','' \<notin> set a" "CHR '','' \<notin> set b" "CHR '','' \<notin> set c"
  shows "split_commas (a @ '', '' @ b @ '', '' @ c) = [a, CHR '' '' # b, CHR '' '' # c]"
proof -
  have "split_commas (a @ CHR '','' # (CHR '' '' # b) @ CHR '','' # CHR '' '' # c) =
        a # split_commas ((CHR '' '' # b) @ CHR '','' # CHR '' '' # c)"
    using assms(1) by (rule split_commas_token)
  also have "split_commas ((CHR '' '' # b) @ CHR '','' # CHR '' '' # c) =
        (CHR '' '' # b) # split_commas (CHR '' '' # c)"
    using assms(2) by (intro split_commas_token) simp
  also have "split_commas (CHR '' '' # c) = [CHR '' '' # c]"
    using assms(3) by (intro split_commas_last) simp
  finally show ?thesis by simp
qed

lemma parse_call_repr:
  "parse_call (''Clock('' @ str_pyint h @ '', '' @ str_pyint m @ '', '' @ str_pyint s @ '')'') =
     Some (IntV h, IntV m, IntV s)"
proof -
  let ?body = "str_pyint h @ '', '' @ str_pyint m @ '', '' @ str_pyint s"
  have r: "''Clock('' @ str_pyint h @ '', '' @ str_pyint m @ '', '' @ str_pyint s @ '')'' =
           ''Clock('' @ ?body @ '')''"
    by simp
  have body: "butlast (drop 6 (''Clock('' @ ?body @ '')'')) = ?body"
    by (simp add: butlast_append)
  have lst: "last (''Clock('' @ ?body @ '')'') = CHR '')''"
    by simp
  have pre: "take 6 (''Clock('' @ ?body @ '')'') = ''Clock(''"
    by simp
  have toks: "split_commas ?body =
      [str_pyint h, CHR '' '' # str_pyint m, CHR '' '' # str_pyint s]"
    by (rule split_commas_three) (rule str_pyint_no_comma)+
  show ?thesis
    unfolding r parse_call_def body lst pre toks
    by (simp add: str_pyint_no_blank parse_literal_str)
qed

lemma decimal_below_100:
  "n < 100 \<Longrightarrow>
   decimal n = (if n < 10 then [digit_char n] else [digit_char (n div 10), digit_char (n mod 10)])"
proof (cases "n < 10")
  case True
  then show ?thesis by (simp add: decimal.simps [of n])
next
  case False
  assume "n < 100"
  then have "n div 10 < 10" by simp
  then have "decimal (n div 10) = [digit_char (n div 10)]"
    by (simp add: decimal.simps [of "n div 10"])
  with False show ?thesis by (simp add: decimal.simps [of n])
qed

lemma format_02d_two_digits:
  assumes "0 \<le> val x" "val x \<le> 59"
  shows "format_02d x = two_digits (val x)"
proof -
  have n: "nat (val x) < 100" using assms by simp
  show ?thesis
    using assms
    by (simp add: format_02d_def two_digits_def Let_def decimal_below_100 [OF n] digit_char_def)
qed

lemma str_pyint_field_text:
  assumes "0 \<le> val x" "val x \<le> 59"
  shows "str_pyint x = field_text x"
proof (cases x)
  case (PInt n)
  with assms have n: "nat n < 100" by simp
  from assms PInt show ?thesis
    by (auto simp: unpadded_def two_digits_def decimal_below_100 [OF n])
next
  case (PBool b)
  then show ?thesis by simp
qed

lemma eval_repr_Clock_repr:
  assumes "valid c"
  shows "\<exists>r. Clock_repr (Some c) = Inr r \<and> eval_repr r = Some (Inr (Some c))"
proof -
  have "Clock (Some (IntV (hours c))) (Some (IntV (minutes c))) (Some (IntV (seconds c))) =
        Inr (Some c)"
    using assms by (simp add: Clock_all_given set_clock_ints valid_def)
  moreover define r where
    "r = ''Clock('' @ str_pyint (hours c) @ '', '' @ str_pyint (minutes c) @ '', '' @
           str_pyint (seconds c) @ '')''"
  moreover have "parse_call r = Some (IntV (hours c), IntV (minutes c), IntV (seconds c))"
    unfolding r_def by (rule parse_call_repr)
  moreover have "Clock_repr (Some c) = Inr r"
    by (simp add: Clock_repr_def r_def)
  ultimately show ?thesis
    by (simp add: eval_repr_def)
qed

text \<open>
  Claim C6, as the code has it. For every valid clock, \<open>__str__\<close> is hours, minutes and
  seconds as two decimal digits each, separated by colons. \<open>__repr__\<close> is \<open>Clock(h, m, s)\<close>
  with each field as \<open>str\<close> writes the stored object: the decimal number without padding
  for a plain integer, \<open>True\<close> or \<open>False\<close> for a boolean. Read back as a constructor call
  it returns the same clock, which compares equal to the original.
\<close>

theorem string_representations:
  assumes "valid c"
  shows "Clock_str (Some c) =
           Inr (two_digits (val (hours c)) @ '':'' @ two_digits (val (minutes c)) @ '':'' @
                two_digits (val (seconds c))) \<and>
         (\<exists>r. Clock_repr (Some c) = Inr r \<and>
              r = ''Clock('' @ field_text (hours c) @ '', '' @ field_text (minutes c) @ '', '' @
                    field_text (seconds c) @ '')'' \<and>
              eval_repr r = Some (Inr (Some c)) \<and>
              Clock_eq (Some c) (ClockObj (Some c)) = Inr (EqBool True))"
proof -
  from assms have b: "0 \<le> val (hours c)" "val (hours c) \<le> 59"
    "0 \<le> val (minutes c)" "val (minutes c) \<le> 59"
    "0 \<le> val (seconds c)" "val (seconds c) \<le> 59"
    by (simp_all add: valid_def)
  have 1: "Clock_str (Some c) =
           Inr (two_digits (val (hours c)) @ '':'' @ two_digits (val (minutes c)) @ '':'' @
                two_digits (val (seconds c)))"
    using b by (simp add: Clock_str_def format_02d_two_digits)
  have 2: "Clock_repr (Some c) =
      Inr (''Clock('' @ field_text (hours c) @ '', '' @ field_text (minutes c) @ '', '' @
                    field_text (seconds c) @ '')'')"
    using b by (simp add: Clock_repr_def str_pyint_field_text)
  from eval_repr_Clock_repr [OF assms] obtain r where
    r: "Clock_repr (Some c) = Inr r" "eval_repr r = Some (Inr (Some c))"
    by blast
  have 3: "Clock_eq (Some c) (ClockObj (Some c)) = Inr (EqBool True)"
    by (simp add: Clock_eq_def)
  from 1 2 3 r show ?thesis by auto
qed

theorem string_representations_witness:
  "valid \<lparr>hours = PInt 8, minutes = PBool True, seconds = PInt 45\<rparr> \<and>
   Clock_str (Some \<lparr>hours = PInt 8, minutes = PBool True, seconds = PInt 45\<rparr>) = Inr ''08:01:45'' \<and>
   Clock_repr (Some \<lparr>hours = PInt 8, minutes = PBool True, seconds = PInt 45\<rparr>) =
     Inr ''Clock(8, True, 45)'' \<and>
   eval_repr ''Clock(8, True, 45)'' =
     Some (Inr (Some \<lparr>hours = PInt 8, minutes = PBool True, seconds = PInt 45\<rparr>))"
proof -
  have v: "valid \<lparr>hours = PInt 8, minutes = PBool True, seconds = PInt 45\<rparr>"
    by (simp add: valid_def)
  from string_representations [OF v] v show ?thesis
    by (auto simp: two_digits_def unpadded_def digit_char_def Clock_eq_def)
qed

text \<open>
  Claim C6 as stated fails for a clock built from booleans: \<open>Clock(True, False, False)\<close>
  is valid, and its representation is \<open>Clock(True, False, False)\<close>, not the decimal
  \<open>Clock(1, 0, 0)\<close>.
\<close>

theorem repr_decimal_counterexample:
  "Clock (Some (IntV (PBool True))) (Some (IntV (PBool False))) (Some (IntV (PBool False))) =
     Inr (Some \<lparr>hours = PBool True, minutes = PBool False, seconds = PBool False\<rparr>) \<and>
   valid \<lparr>hours = PBool True, minutes = PBool False, seconds = PBool False\<rparr> \<and>
   Clock_repr (Some \<lparr>hours = PBool True, minutes = PBool False, seconds = PBool False\<rparr>) =
     Inr ''Clock(True, False, False)'' \<and>
   Clock_repr (Some \<lparr>hours = PBool True, minutes = PBool False, seconds = PBool False\<rparr>) \<noteq>
     Inr ''Clock(1, 0, 0)''"
  by (simp add: Clock_all_given set_clock_ints valid_def Clock_repr_def)

end
